theory Spec2Isabelle
  imports Complex_Main "HOL-Library.Sublist"
begin

section \<open>JavaScript values as parsed from the CMS page model\<close>

text \<open>
  The collector works on the result of \<^verbatim>\<open>JSON.parse\<close>. A parsed value is null, a boolean,
  a number, a string, an array or an object. An object is kept as the list of its own
  properties in the order \<^verbatim>\<open>Object.keys\<close> enumerates them; the keys of a parsed object
  are pairwise different, which no theorem below has to assume. A number is kept as a
  rational: the program only tests numbers for zero and never computes with them. The JavaScript value
  \<^verbatim>\<open>undefined\<close>, which is no JSON value, is \<open>None\<close> of \<open>json option\<close>. A string is a list of
  8-bit characters, which is what the program's own texts and markers are; on a string
  with characters beyond ASCII, the first unit of the string and the units that a loop
  over it visits are not those of JavaScript, which shows only where \<^verbatim>\<open>Values\<close> or
  \<^verbatim>\<open>DateTimeValues\<close> is a bare string instead of a list.
\<close>

datatype json =
    JNull
  | JBool bool
  | JNum rat
  | JStr string
  | JArr "json list"
  | JObj "(string \<times> json) list"

datatype error = TypeError

type_synonym 'a result = "error + 'a"

definition bind_r :: "'a result \<Rightarrow> ('a \<Rightarrow> 'b result) \<Rightarrow> 'b result" where
  "bind_r m f = (case m of Inl e \<Rightarrow> Inl e | Inr x \<Rightarrow> f x)"

text \<open>Truthiness (\<^verbatim>\<open>!x\<close>, \<^verbatim>\<open>x || y\<close>, \<^verbatim>\<open>if (x)\<close>).\<close>

fun truthy :: "json \<Rightarrow> bool" where
  "truthy JNull = False"
| "truthy (JBool b) = b"
| "truthy (JNum n) = (n \<noteq> 0)"
| "truthy (JStr s) = (s \<noteq> [])"
| "truthy (JArr xs) = True"
| "truthy (JObj ps) = True"

fun truthy_u :: "json option \<Rightarrow> bool" where
  "truthy_u None = False"
| "truthy_u (Some v) = truthy v"

text \<open>\<^verbatim>\<open>a || b\<close> on possibly undefined values.\<close>

definition js_or :: "json option \<Rightarrow> json option \<Rightarrow> json option" where
  "js_or a b = (if truthy_u a then a else b)"

text \<open>
  Reading a named property of a value that is neither null nor undefined. None of the
  names the program reads (\<^verbatim>\<open>EmbeddedValues\<close>, \<^verbatim>\<open>Values\<close>, \<^verbatim>\<open>Fields\<close>, \<^verbatim>\<open>style\<close> and the like) is a
  built-in property of a string, number, boolean, array or plain object, so only an
  object's own property can be found.
\<close>

fun own_prop :: "json \<Rightarrow> string \<Rightarrow> json option" where
  "own_prop (JObj ps) k = map_of ps k"
| "own_prop _ k = None"

text \<open>\<^verbatim>\<open>x.k\<close>: a TypeError when \<open>x\<close> is null or undefined.\<close>

fun get :: "json option \<Rightarrow> string \<Rightarrow> json option result" where
  "get None k = Inl TypeError"
| "get (Some JNull) k = Inl TypeError"
| "get (Some v) k = Inr (own_prop v k)"

text \<open>\<^verbatim>\<open>x?.k\<close>: undefined when \<open>x\<close> is null or undefined.\<close>

fun oget :: "json option \<Rightarrow> string \<Rightarrow> json option" where
  "oget None k = None"
| "oget (Some JNull) k = None"
| "oget (Some v) k = own_prop v k"

text \<open>\<^verbatim>\<open>x?.[0]\<close>: the first element of an array, the first character of a string, the
  own property \<^verbatim>\<open>"0"\<close> of an object.\<close>

fun oidx0 :: "json option \<Rightarrow> json option" where
  "oidx0 (Some (JArr (x # xs))) = Some x"
| "oidx0 (Some (JStr (c # cs))) = Some (JStr [c])"
| "oidx0 (Some (JObj ps)) = map_of ps ''0''"
| "oidx0 _ = None"

text \<open>\<^verbatim>\<open>for (const x of v)\<close>: arrays and strings are iterable, nothing else is.\<close>

fun iter :: "json \<Rightarrow> json list result" where
  "iter (JArr xs) = Inr xs"
| "iter (JStr s) = Inr (map (\<lambda>c. JStr [c]) s)"
| "iter _ = Inl TypeError"

text \<open>\<^verbatim>\<open>s.toLowerCase()\<close> and \<^verbatim>\<open>s.includes(t)\<close>; the first is a TypeError on a value
  that is not a string. Lower-casing maps the letters A to Z; the two markers the program
  looks for are made of lower-case letters and a space.\<close>

definition lower_char :: "char \<Rightarrow> char" where
  "lower_char c =
     (case map_of (zip ''ABCDEFGHIJKLMNOPQRSTUVWXYZ'' ''abcdefghijklmnopqrstuvwxyz'') c of
        None \<Rightarrow> c
      | Some l \<Rightarrow> l)"

definition toLowerCase :: "string \<Rightarrow> string" where
  "toLowerCase s = map lower_char s"

fun str_includes :: "string \<Rightarrow> string \<Rightarrow> bool" where
  "str_includes [] t = (t = [])"
| "str_includes (c # cs) t = (take (length t) (c # cs) = t \<or> str_includes cs t)"

fun lower_includes :: "json \<Rightarrow> string \<Rightarrow> bool result" where
  "lower_includes (JStr s) t = Inr (str_includes (toLowerCase s) t)"
| "lower_includes _ t = Inl TypeError"

section \<open>Value Locator: \<^verbatim>\<open>findValueByKey\<close>\<close>

fun findValueByKey :: "json \<Rightarrow> string \<Rightarrow> nat \<Rightarrow> json"
  and findInItems :: "json list \<Rightarrow> string \<Rightarrow> nat \<Rightarrow> json"
  and findInProps :: "(string \<times> json) list \<Rightarrow> string \<Rightarrow> nat \<Rightarrow> json" where
  "findValueByKey (JArr items) targetKey depth =
     (if depth > 10 then JNull else findInItems items targetKey depth)"
| "findValueByKey (JObj ps) targetKey depth =
     (if depth > 10 then JNull else findInProps ps targetKey depth)"
| "findValueByKey _ targetKey depth = JNull"
| "findInItems [] targetKey depth = JNull"
| "findInItems (item # rest) targetKey depth =
     (let r = findValueByKey item targetKey (depth + 1)
      in if r \<noteq> JNull then r else findInItems rest targetKey depth)"
| "findInProps [] targetKey depth = JNull"
| "findInProps ((key, v) # rest) targetKey depth =
     (if key = targetKey then v
      else let r = findValueByKey v targetKey (depth + 1)
           in if r \<noteq> JNull then r else findInProps rest targetKey depth)"

section \<open>Block Decoder: \<^verbatim>\<open>extractBlockInfo\<close>\<close>

record block_info =
  showTime :: json
  isTentative :: bool

text \<open>\<^verbatim>\<open>a || d\<close> where \<open>d\<close> is a definite value.\<close>

fun or_else :: "json option \<Rightarrow> json \<Rightarrow> json" where
  "or_else None d = d"
| "or_else (Some v) d = (if truthy v then v else d)"

text \<open>\<^verbatim>\<open>node.EmbeddedValues || node.LinkedComponentValues || node.Values || []\<close>
  for a node that is not null.\<close>

definition entryList :: "json \<Rightarrow> json" where
  "entryList node =
     or_else (js_or (own_prop node ''EmbeddedValues'')
                (js_or (own_prop node ''LinkedComponentValues'') (own_prop node ''Values'')))
             (JArr [])"

text \<open>\<^verbatim>\<open>o.Values?.[0] || o.Value || d\<close> for a truthy \<open>o\<close>.\<close>

definition firstValue :: "json \<Rightarrow> json \<Rightarrow> json" where
  "firstValue obj d = or_else (js_or (oidx0 (own_prop obj ''Values'')) (own_prop obj ''Value'')) d"

text \<open>\<^verbatim>\<open>typeof v === 'string' ? v : d\<close>\<close>

fun string_or :: "json \<Rightarrow> json \<Rightarrow> json" where
  "string_or (JStr s) d = JStr s"
| "string_or _ d = d"

text \<open>\<^verbatim>\<open>block.style || block.Fields?.style\<close> for a block that is not null.\<close>

definition styleObjOf :: "json \<Rightarrow> json option" where
  "styleObjOf block = js_or (own_prop block ''style'') (oget (own_prop block ''Fields'') ''style'')"

text \<open>Lines 184 to 199: the documented shapes, read on the first entry only. The result
  is the pair of \<^verbatim>\<open>showTime\<close> and \<^verbatim>\<open>isTentative\<close> at line 200.\<close>

definition readBlock :: "json \<Rightarrow> (json \<times> bool) result" where
  "readBlock block =
     bind_r (get (Some block) ''eyebrow'') (\<lambda>direct.
       let eyebrowObj = js_or direct (oget (own_prop block ''Fields'') ''eyebrow'');
           showTime = (case eyebrowObj of
                         None \<Rightarrow> JStr ''Unknown''
                       | Some e \<Rightarrow> if truthy e then firstValue e (JStr ''Unknown'')
                                  else JStr ''Unknown'');
           styleObj = styleObjOf block
       in case styleObj of
            None \<Rightarrow> Inr (showTime, False)
          | Some st \<Rightarrow>
              if truthy st
              then bind_r (lower_includes (firstValue st (JStr [])) ''disabled'')
                     (\<lambda>t. Inr (showTime, t))
              else Inr (showTime, False))"

definition fastPath :: "json \<Rightarrow> (json \<times> bool) result" where
  "fastPath blockData =
     (case entryList blockData of
        JArr (block # others) \<Rightarrow> readBlock block
      | _ \<Rightarrow> Inr (JStr ''Unknown'', False))"

text \<open>Lines 202 to 208.\<close>

definition eyebrowFallback :: "json \<Rightarrow> json" where
  "eyebrowFallback blockData =
     (let eyebrowFound = findValueByKey blockData ''eyebrow'' 0
      in if truthy eyebrowFound
         then firstValue eyebrowFound (string_or eyebrowFound (JStr ''Unknown''))
         else JStr ''Unknown'')"

text \<open>Lines 212 to 217.\<close>

definition styleFallback :: "json \<Rightarrow> bool result" where
  "styleFallback blockData =
     (let styleFound = findValueByKey blockData ''style'' 0
      in if truthy styleFound
         then lower_includes (firstValue styleFound (string_or styleFound (JStr []))) ''disabled''
         else Inr False)"

definition extractBlockInfo :: "json option \<Rightarrow> block_info result" where
  "extractBlockInfo blockData =
     (case blockData of
        None \<Rightarrow> Inr \<lparr>showTime = JStr ''Unknown'', isTentative = False\<rparr>
      | Some bd \<Rightarrow>
          if \<not> truthy bd then Inr \<lparr>showTime = JStr ''Unknown'', isTentative = False\<rparr>
          else bind_r (fastPath bd) (\<lambda>(showTime0, isTentative0).
                 let showTime1 = (if showTime0 = JStr ''Unknown'' then eyebrowFallback bd
                                  else showTime0)
                 in bind_r (if \<not> isTentative0 then styleFallback bd else Inr isTentative0)
                      (\<lambda>isTentative1.
                         Inr \<lparr>showTime = showTime1, isTentative = isTentative1\<rparr>)))"

section \<open>Calendar Extractor: \<^verbatim>\<open>findCalendarConfig\<close> and \<^verbatim>\<open>parseCalendarConfig\<close>\<close>

definition skipped_keys :: "string list" where
  "skipped_keys = [''MetadataFields'', ''Categories'', ''Multimedia'']"

text \<open>Lines 76 to 83: the field itself, or the field under \<^verbatim>\<open>Fields\<close>.\<close>

definition directHit :: "(string \<times> json) list \<Rightarrow> json option" where
  "directHit ps =
     (if truthy_u (map_of ps ''calendarConfig'') then map_of ps ''calendarConfig''
      else if truthy_u (map_of ps ''Fields'')
              \<and> truthy_u (oget (map_of ps ''Fields'') ''calendarConfig'')
           then oget (map_of ps ''Fields'') ''calendarConfig''
           else None)"

fun findCalendarConfig :: "json \<Rightarrow> nat \<Rightarrow> json"
  and findCalInItems :: "json list \<Rightarrow> nat \<Rightarrow> json"
  and findCalInProps :: "(string \<times> json) list \<Rightarrow> nat \<Rightarrow> json" where
  "findCalendarConfig (JArr items) depth =
     (if depth > 25 then JNull else findCalInItems items depth)"
| "findCalendarConfig (JObj ps) depth =
     (if depth > 25 then JNull
      else case directHit ps of Some v \<Rightarrow> v | None \<Rightarrow> findCalInProps ps depth)"
| "findCalendarConfig _ depth = JNull"
| "findCalInItems [] depth = JNull"
| "findCalInItems (item # rest) depth =
     (let r = findCalendarConfig item (depth + 1)
      in if truthy r then r else findCalInItems rest depth)"
| "findCalInProps [] depth = JNull"
| "findCalInProps ((key, v) # rest) depth =
     (if key \<in> set skipped_keys then findCalInProps rest depth
      else let r = findCalendarConfig v (depth + 1)
           in if truthy r then r else findCalInProps rest depth)"

record 't schedule =
  schedule_date :: string
  show_time :: 't
  status :: string
  is_available :: bool

text \<open>\<^verbatim>\<open>dateTimeValues.length === 0\<close>\<close>

fun length_is_zero :: "json \<Rightarrow> bool" where
  "length_is_zero (JArr xs) = (xs = [])"
| "length_is_zero (JStr s) = (s = [])"
| "length_is_zero (JObj ps) = (map_of ps ''length'' = Some (JNum 0))"
| "length_is_zero _ = False"

text \<open>
  Lines 239 to 257 only write to the console, which is not modelled, but on the first
  entry that has dates they call \<^verbatim>\<open>Object.keys(val[0])\<close> for every non-empty array \<open>val\<close>
  among the property values of a truthy \<^verbatim>\<open>blockData\<close>, and that call is a TypeError when
  \<^verbatim>\<open>val[0]\<close> is null.
\<close>

fun propertyValues :: "json \<Rightarrow> json list" where
  "propertyValues (JObj ps) = map snd ps"
| "propertyValues (JArr xs) = xs"
| "propertyValues (JStr s) = map (\<lambda>c. JStr [c]) s"
| "propertyValues _ = []"

fun nullHeaded :: "json \<Rightarrow> bool" where
  "nullHeaded (JArr (JNull # xs)) = True"
| "nullHeaded _ = False"

definition debugLog :: "json \<Rightarrow> unit result" where
  "debugLog entry =
     (case own_prop entry ''blockData'' of
        None \<Rightarrow> Inr ()
      | Some bd \<Rightarrow>
          if truthy bd \<and> list_ex nullHeaded (propertyValues bd) then Inl TypeError
          else Inr ())"

text \<open>\<^verbatim>\<open>dt.split('T')[0]\<close>\<close>

fun splitT0 :: "json \<Rightarrow> string result" where
  "splitT0 (JStr s) = Inr (takeWhile (\<lambda>c. c \<noteq> CHR ''T'') s)"
| "splitT0 _ = Inl TypeError"

text \<open>Lines 263 to 271.\<close>

fun recordsFor :: "block_info \<Rightarrow> json list \<Rightarrow> json schedule list result" where
  "recordsFor info [] = Inr []"
| "recordsFor info (dt # dts) =
     bind_r (splitT0 dt) (\<lambda>dateStr.
       bind_r (recordsFor info dts) (\<lambda>rs.
         Inr (\<lparr>schedule_date = dateStr,
               show_time = showTime info,
               status = (if isTentative info then ''TENTATIVE'' else ''SCHEDULED''),
               is_available = \<not> isTentative info\<rparr> # rs)))"

text \<open>\<^verbatim>\<open>entry.eventDates?.DateTimeValues || []\<close>\<close>

definition dateTimeValuesOf :: "json \<Rightarrow> json result" where
  "dateTimeValuesOf entry =
     bind_r (get (Some entry) ''eventDates'') (\<lambda>ed.
       Inr (or_else (oget ed ''DateTimeValues'') (JArr [])))"

text \<open>The loop of lines 233 to 272; the flag is \<^verbatim>\<open>debugged\<close>.\<close>

fun expandEntries :: "bool \<Rightarrow> json list \<Rightarrow> json schedule list result" where
  "expandEntries debugged [] = Inr []"
| "expandEntries debugged (entry # rest) =
     bind_r (dateTimeValuesOf entry) (\<lambda>dateTimeValues.
       if length_is_zero dateTimeValues then expandEntries debugged rest
       else bind_r (if debugged then Inr () else debugLog entry) (\<lambda>u.
            bind_r (extractBlockInfo (own_prop entry ''blockData'')) (\<lambda>info.
            bind_r (iter dateTimeValues) (\<lambda>dts.
            bind_r (recordsFor info dts) (\<lambda>rs.
            bind_r (expandEntries True rest) (\<lambda>later. Inr (rs @ later)))))))"

definition parseCalendarConfig :: "json \<Rightarrow> json schedule list result" where
  "parseCalendarConfig calendarConfig =
     bind_r (get (Some calendarConfig) ''EmbeddedValues'') (\<lambda>u.
       case entryList calendarConfig of
         JArr entries \<Rightarrow> expandEntries False entries
       | _ \<Rightarrow> Inr [])"

section \<open>Closure Detector: \<^verbatim>\<open>checkTemporarilyClosed\<close>\<close>

fun scanFeatures :: "json list \<Rightarrow> bool result" where
  "scanFeatures [] = Inr False"
| "scanFeatures (feature # rest) =
     bind_r (get (Some feature) ''Fields'') (\<lambda>fields.
       let desc = or_else (oidx0 (oget (oget fields ''description'') ''Values'')) (JStr [])
       in bind_r (lower_includes desc ''temporarily closed'') (\<lambda>hit.
            if hit then Inr True else scanFeatures rest))"

definition featuresOf :: "json \<Rightarrow> json result" where
  "featuresOf cp =
     bind_r (get (Some cp) ''Component'') (\<lambda>c.
       Inr (or_else (oget (oget (oget c ''Fields'') ''featureList'') ''LinkedComponentValues'')
              (JArr [])))"

fun scanPresentations :: "json list \<Rightarrow> bool result" where
  "scanPresentations [] = Inr False"
| "scanPresentations (cp # rest) =
     bind_r (featuresOf cp) (\<lambda>features.
       bind_r (iter features) (\<lambda>fs.
         bind_r (scanFeatures fs) (\<lambda>hit.
           if hit then Inr True else scanPresentations rest)))"

text \<open>The body of the \<^verbatim>\<open>try\<close> block.\<close>

definition closedScan :: "json \<Rightarrow> bool result" where
  "closedScan cmsData =
     bind_r (get (Some cmsData) ''ComponentPresentations'') (\<lambda>p.
       bind_r (iter (or_else p (JArr []))) scanPresentations)"

text \<open>The \<^verbatim>\<open>catch\<close> ignores the error and control falls to \<^verbatim>\<open>return false\<close>.\<close>

definition checkTemporarilyClosed :: "json \<Rightarrow> bool" where
  "checkTemporarilyClosed cmsData =
     (case closedScan cmsData of Inl e \<Rightarrow> False | Inr hit \<Rightarrow> hit)"

section \<open>Snapshot Differ: \<^verbatim>\<open>detectChanges\<close>\<close>

text \<open>
  A tracked show. A field that the configuration entry does not have reads as
  \<^verbatim>\<open>undefined\<close> (the third entry of \<^verbatim>\<open>TRACKED_SHOWS\<close> has neither \<^verbatim>\<open>show_id\<close> nor
  \<^verbatim>\<open>show_name\<close>), which a template literal prints as the word \<^verbatim>\<open>undefined\<close>.
\<close>

record show_config =
  show_id :: "string option"
  show_name :: "string option"
  park_name :: "string option"
  show_type :: "string option"
  cms_url :: "string option"

fun tpl :: "string option \<Rightarrow> string" where
  "tpl None = ''undefined''"
| "tpl (Some s) = s"

datatype severity = LOW | MEDIUM | HIGH

text \<open>The objects under \<^verbatim>\<open>old_value\<close> and \<^verbatim>\<open>new_value\<close>: a field that is absent is \<open>None\<close>.\<close>

record snapshot =
  v_show_time :: "string option"
  v_status :: "string option"

record change =
  change_type :: string
  entity_id :: "string option"
  entity_name :: "string option"
  change_date :: string
  change_description :: string
  old_value :: "snapshot option"
  new_value :: "snapshot option"
  severity :: severity

text \<open>The arrow U+2192 of the descriptions, as its three UTF-8 bytes.\<close>

definition arrow :: string where
  "arrow = [CHR 0xE2, CHR 0x86, CHR 0x92]"

text \<open>Lines 373 to 382.\<close>

definition added :: "show_config \<Rightarrow> string schedule \<Rightarrow> change" where
  "added showConfig newRec =
     \<lparr>change_type = ''ENTERTAINMENT'',
      entity_id = show_id showConfig,
      entity_name = show_name showConfig,
      change_date = schedule_date newRec,
      change_description = ''New show date added: '' @ tpl (show_name showConfig) @ '' on ''
         @ schedule_date newRec @ '' at '' @ show_time newRec,
      old_value = None,
      new_value = Some \<lparr>v_show_time = Some (show_time newRec), v_status = Some (status newRec)\<rparr>,
      severity = LOW\<rparr>"

text \<open>Lines 386 to 395.\<close>

definition timeChanged :: "show_config \<Rightarrow> string schedule \<Rightarrow> string schedule \<Rightarrow> change" where
  "timeChanged showConfig existing newRec =
     \<lparr>change_type = ''ENTERTAINMENT'',
      entity_id = show_id showConfig,
      entity_name = show_name showConfig,
      change_date = schedule_date newRec,
      change_description = ''Show time changed for '' @ tpl (show_name showConfig) @ '' on ''
         @ schedule_date newRec @ '': '' @ show_time existing @ '' '' @ arrow @ '' ''
         @ show_time newRec,
      old_value = Some \<lparr>v_show_time = Some (show_time existing), v_status = None\<rparr>,
      new_value = Some \<lparr>v_show_time = Some (show_time newRec), v_status = None\<rparr>,
      severity = MEDIUM\<rparr>"

text \<open>Lines 400 to 409.\<close>

definition statusChanged :: "show_config \<Rightarrow> string schedule \<Rightarrow> string schedule \<Rightarrow> change" where
  "statusChanged showConfig existing newRec =
     \<lparr>change_type = ''ENTERTAINMENT'',
      entity_id = show_id showConfig,
      entity_name = show_name showConfig,
      change_date = schedule_date newRec,
      change_description = ''Status changed for '' @ tpl (show_name showConfig) @ '' on ''
         @ schedule_date newRec @ '': '' @ status existing @ '' '' @ arrow @ '' ''
         @ status newRec,
      old_value = Some \<lparr>v_show_time = None, v_status = Some (status existing)\<rparr>,
      new_value = Some \<lparr>v_show_time = None, v_status = Some (status newRec)\<rparr>,
      severity = MEDIUM\<rparr>"

text \<open>Lines 418 to 427.\<close>

definition removed :: "show_config \<Rightarrow> string schedule \<Rightarrow> change" where
  "removed showConfig existing =
     \<lparr>change_type = ''ENTERTAINMENT'',
      entity_id = show_id showConfig,
      entity_name = show_name showConfig,
      change_date = schedule_date existing,
      change_description = ''Show date removed: '' @ tpl (show_name showConfig) @ '' on ''
         @ schedule_date existing @ '' (was '' @ show_time existing @ '')'',
      old_value = Some \<lparr>v_show_time = Some (show_time existing),
                         v_status = Some (status existing)\<rparr>,
      new_value = None,
      severity = HIGH\<rparr>"

text \<open>Lines 364 to 366: a later record of the same date replaces an earlier one.\<close>

fun buildExistingMap ::
  "string schedule list \<Rightarrow> (string \<rightharpoonup> string schedule) \<Rightarrow> (string \<rightharpoonup> string schedule)" where
  "buildExistingMap [] existingMap = existingMap"
| "buildExistingMap (existing # rest) existingMap =
     buildExistingMap rest (existingMap(schedule_date existing \<mapsto> existing))"

text \<open>Lines 368 to 412, with the list \<^verbatim>\<open>changes\<close> that the loop appends to.\<close>

fun compareNew ::
  "show_config \<Rightarrow> (string \<rightharpoonup> string schedule) \<Rightarrow> string schedule list \<Rightarrow> change list
     \<Rightarrow> change list" where
  "compareNew showConfig existingMap [] changes = changes"
| "compareNew showConfig existingMap (newRec # rest) changes =
     compareNew showConfig existingMap rest
       (case existingMap (schedule_date newRec) of
          None \<Rightarrow> changes @ [added showConfig newRec]
        | Some existing \<Rightarrow>
            (let changes1 = (if show_time existing \<noteq> show_time newRec
                             then changes @ [timeChanged showConfig existing newRec]
                             else changes)
             in if status existing \<noteq> status newRec
                then changes1 @ [statusChanged showConfig existing newRec]
                else changes1))"

text \<open>Lines 415 to 429.\<close>

fun findRemoved ::
  "show_config \<Rightarrow> string set \<Rightarrow> string schedule list \<Rightarrow> change list \<Rightarrow> change list" where
  "findRemoved showConfig newDateSet [] changes = changes"
| "findRemoved showConfig newDateSet (existing # rest) changes =
     findRemoved showConfig newDateSet rest
       (if schedule_date existing \<notin> newDateSet then changes @ [removed showConfig existing]
        else changes)"

definition detectChanges ::
  "show_config \<Rightarrow> string schedule list \<Rightarrow> string schedule list \<Rightarrow> change list" where
  "detectChanges showConfig newSchedules existingSchedules =
     (let existingMap = buildExistingMap existingSchedules Map.empty;
          changes = compareNew showConfig existingMap newSchedules [];
          newDateSet = set (map schedule_date newSchedules)
      in findRemoved showConfig newDateSet existingSchedules changes)"

section \<open>Status of a show: steps 2 to 4 of \<^verbatim>\<open>processShow\<close>\<close>

datatype current_status = TEMPORARILY_CLOSED | ACTIVE | UNKNOWN

text \<open>
  A value inside a template literal is converted to a string. That conversion is a
  TypeError on an object with an own property \<^verbatim>\<open>toString\<close>, which hides the method of the
  prototype behind a value that cannot be called, and on an array that holds such an
  object, since the elements of an array are converted in turn.
\<close>

fun printable :: "json \<Rightarrow> bool"
  and printableAll :: "json list \<Rightarrow> bool" where
  "printable (JObj ps) = (map_of ps ''toString'' = None)"
| "printable (JArr xs) = printableAll xs"
| "printable _ = True"
| "printableAll [] = True"
| "printableAll (x # xs) = (printable x \<and> printableAll xs)"

fun printable_u :: "json option \<Rightarrow> bool" where
  "printable_u None = True"
| "printable_u (Some v) = printable v"

text \<open>Lines 460 to 464: the count, then the date and the time of the first and of the last
  record when there is one.\<close>

definition logParsed :: "json schedule list \<Rightarrow> unit result" where
  "logParsed newSchedules =
     (case newSchedules of
        [] \<Rightarrow> Inr ()
      | first # others \<Rightarrow>
          if printable (show_time first) \<and> printable (show_time (last newSchedules))
          then Inr () else Inl TypeError)"

text \<open>\<^verbatim>\<open>Object.keys(v).length > 0\<close>\<close>

fun hasKeys :: "json \<Rightarrow> bool" where
  "hasKeys (JObj ps) = (ps \<noteq> [])"
| "hasKeys (JArr xs) = (xs \<noteq> [])"
| "hasKeys (JStr s) = (s \<noteq> [])"
| "hasKeys _ = False"

text \<open>Lines 471 to 476: for each component presentation the keys of its fields, printed
  with its \<^verbatim>\<open>Id\<close> when there are any.\<close>

fun listFieldKeys :: "json list \<Rightarrow> unit result" where
  "listFieldKeys [] = Inr ()"
| "listFieldKeys (cp # rest) =
     bind_r (get (Some cp) ''Component'') (\<lambda>component.
       if hasKeys (or_else (oget component ''Fields'') (JObj []))
          \<and> \<not> printable_u (oget component ''Id'')
       then Inl TypeError
       else listFieldKeys rest)"

text \<open>Lines 469 to 477, which run when no calendar is found and the show is not closed.\<close>

definition diagnose :: "json \<Rightarrow> unit result" where
  "diagnose cmsData =
     bind_r (get (Some cmsData) ''ComponentPresentations'') (\<lambda>p.
       bind_r (iter (or_else p (JArr []))) listFieldKeys)"

text \<open>Lines 480 to 487.\<close>

definition currentStatus :: "bool \<Rightarrow> 'a list \<Rightarrow> current_status" where
  "currentStatus isClosed newSchedules =
     (if isClosed then TEMPORARILY_CLOSED
      else if length newSchedules > 0 then ACTIVE
      else UNKNOWN)"

text \<open>Lines 455 to 477: step 3, which leaves the new records in \<^verbatim>\<open>newSchedules\<close>.\<close>

definition findAndParse :: "json \<Rightarrow> bool \<Rightarrow> json schedule list result" where
  "findAndParse cmsData isClosed =
     (let calendarConfig = findCalendarConfig cmsData 0
      in if truthy calendarConfig
         then bind_r (parseCalendarConfig calendarConfig) (\<lambda>newSchedules.
                bind_r (logParsed newSchedules) (\<lambda>u. Inr newSchedules))
         else if isClosed then Inr []
         else bind_r (diagnose cmsData) (\<lambda>u. Inr []))"

text \<open>Lines 452 to 487 for a fetched document: the status that step 4 assigns, or the
  exception that leaves \<^verbatim>\<open>processShow\<close> before step 4.\<close>

definition processShowStatus :: "json \<Rightarrow> current_status result" where
  "processShowStatus cmsData =
     (let isClosed = checkTemporarilyClosed cmsData
      in bind_r (findAndParse cmsData isClosed) (\<lambda>newSchedules.
           Inr (currentStatus isClosed newSchedules)))"

section \<open>Notions of the specification\<close>

subsection \<open>Value Locator\<close>

text \<open>
  The key and value pairs of the mappings that lie at depth at most 10 below a value, in
  depth-first order: the elements of a sequence by index, the keys of a mapping in key
  order, a pair before the pairs inside its value.
\<close>

fun occurrences :: "json \<Rightarrow> nat \<Rightarrow> (string \<times> json) list"
  and occItems :: "json list \<Rightarrow> nat \<Rightarrow> (string \<times> json) list"
  and occProps :: "(string \<times> json) list \<Rightarrow> nat \<Rightarrow> (string \<times> json) list" where
  "occurrences (JArr items) depth = (if depth > 10 then [] else occItems items depth)"
| "occurrences (JObj ps) depth = (if depth > 10 then [] else occProps ps depth)"
| "occurrences _ depth = []"
| "occItems [] depth = []"
| "occItems (item # rest) depth = occurrences item (depth + 1) @ occItems rest depth"
| "occProps [] depth = []"
| "occProps ((key, v) # rest) depth = (key, v) # occurrences v (depth + 1) @ occProps rest depth"

text \<open>The first value found under the key, as the specification words it.\<close>

definition firstUnderKey :: "json \<Rightarrow> string \<Rightarrow> json option" where
  "firstUnderKey v targetKey = map_of (occurrences v 0) targetKey"

text \<open>The first value found under the key when null values are passed over.\<close>

definition firstNonNullUnderKey :: "json \<Rightarrow> string \<Rightarrow> json option" where
  "firstNonNullUnderKey v targetKey =
     map_of (filter (\<lambda>(key, w). w \<noteq> JNull) (occurrences v 0)) targetKey"

subsection \<open>Block Decoder\<close>

text \<open>The style string that the first entry carries, directly or under its fields wrapper.\<close>

definition firstEntryStyle :: "json \<Rightarrow> json option" where
  "firstEntryStyle slot =
     (case entryList slot of
        JArr (block # others) \<Rightarrow>
          (case styleObjOf block of
             None \<Rightarrow> None
           | Some st \<Rightarrow> if truthy st then Some (firstValue st (JStr [])) else None)
      | _ \<Rightarrow> None)"

definition tentativeOf :: "block_info result \<Rightarrow> bool result" where
  "tentativeOf r = (case r of Inl e \<Rightarrow> Inl e | Inr info \<Rightarrow> Inr (isTentative info))"

subsection \<open>Calendar Extractor\<close>

text \<open>The entries of a calendar node, the date-time values an entry lists, and the
  calendar date of a date-time string.\<close>

definition entriesOf :: "json \<Rightarrow> json list" where
  "entriesOf node = (case entryList node of JArr entries \<Rightarrow> entries | _ \<Rightarrow> [])"

definition entryDates :: "json \<Rightarrow> json list" where
  "entryDates entry =
     (case dateTimeValuesOf entry of
        Inl e \<Rightarrow> []
      | Inr v \<Rightarrow> (case iter v of Inl e \<Rightarrow> [] | Inr dts \<Rightarrow> dts))"

fun dateText :: "json \<Rightarrow> string" where
  "dateText (JStr s) = takeWhile (\<lambda>c. c \<noteq> CHR ''T'') s"
| "dateText _ = []"

definition decodedBlock :: "json \<Rightarrow> block_info" where
  "decodedBlock entry =
     (case extractBlockInfo (own_prop entry ''blockData'') of
        Inl e \<Rightarrow> \<lparr>showTime = JStr ''Unknown'', isTentative = False\<rparr>
      | Inr info \<Rightarrow> info)"

text \<open>One record per date-time string of the entry, all with the entry's decoded block.\<close>

definition expandEntry :: "json \<Rightarrow> json schedule list" where
  "expandEntry entry =
     map (\<lambda>dt. \<lparr>schedule_date = dateText dt,
                show_time = showTime (decodedBlock entry),
                status = (if isTentative (decodedBlock entry) then ''TENTATIVE''
                          else ''SCHEDULED''),
                is_available = \<not> isTentative (decodedBlock entry)\<rparr>)
         (entryDates entry)"

definition listedDates :: "json \<Rightarrow> string list" where
  "listedDates node = concat (map (\<lambda>entry. map dateText (entryDates entry)) (entriesOf node))"

text \<open>
  The value under which an entry lists its date-time strings, and the entries that list
  none: the value is absent, falsy, an empty list, or an object that gives its own length
  as zero.
\<close>

definition datesValue :: "json \<Rightarrow> json" where
  "datesValue entry = or_else (oget (own_prop entry ''eventDates'') ''DateTimeValues'') (JArr [])"

definition withoutDates :: "json \<Rightarrow> bool" where
  "withoutDates entry =
     (entry \<noteq> JNull
      \<and> (case datesValue entry of
            JArr dts \<Rightarrow> dts = []
          | JObj ps \<Rightarrow> map_of ps ''length'' = Some (JNum 0)
          | _ \<Rightarrow> False))"

fun isString :: "json \<Rightarrow> bool" where
  "isString (JStr s) = True"
| "isString _ = False"

text \<open>
  The entries on which the extraction throws: a null entry, and an entry with dates whose
  block cannot be decoded, whose dates cannot be iterated or whose dates are not all
  strings. The first entry with dates is also the one whose block the console output
  inspects.
\<close>

definition entryRaises :: "json \<Rightarrow> bool" where
  "entryRaises entry =
     (entry = JNull
      \<or> (\<not> withoutDates entry
          \<and> (extractBlockInfo (own_prop entry ''blockData'') = Inl TypeError
              \<or> (case iter (datesValue entry) of
                    Inl e \<Rightarrow> True
                  | Inr dts \<Rightarrow> list_ex (\<lambda>dt. \<not> isString dt) dts))))"

definition firstDatedRaises :: "json list \<Rightarrow> bool" where
  "firstDatedRaises entries =
     (case filter (\<lambda>entry. \<not> withoutDates entry) entries of
        [] \<Rightarrow> False
      | entry # others \<Rightarrow> debugLog entry = Inl TypeError)"

definition raisesOn :: "json \<Rightarrow> bool" where
  "raisesOn node =
     (node = JNull \<or> list_ex entryRaises (entriesOf node) \<or> firstDatedRaises (entriesOf node))"

subsection \<open>Status of a show\<close>

text \<open>The records that the extraction yields for a document: those of the calendar that
  is found, and none when no calendar is found.\<close>

definition extractedRecords :: "json \<Rightarrow> json schedule list" where
  "extractedRecords cmsData =
     (if truthy (findCalendarConfig cmsData 0)
      then (case parseCalendarConfig (findCalendarConfig cmsData 0) of
              Inl e \<Rightarrow> []
            | Inr rs \<Rightarrow> rs)
      else [])"

text \<open>A component presentation on which the listing of field keys throws.\<close>

definition unlistable :: "json \<Rightarrow> bool" where
  "unlistable cp =
     (cp = JNull
      \<or> (hasKeys (or_else (oget (own_prop cp ''Component'') ''Fields'') (JObj []))
          \<and> \<not> printable_u (oget (own_prop cp ''Component'') ''Id'')))"

text \<open>The documents on which \<^verbatim>\<open>processShow\<close> is left by an exception before step 4.\<close>

definition statusNotReached :: "json \<Rightarrow> bool" where
  "statusNotReached cmsData =
     (if truthy (findCalendarConfig cmsData 0)
      then parseCalendarConfig (findCalendarConfig cmsData 0) = Inl TypeError
           \<or> (case extractedRecords cmsData of
                 [] \<Rightarrow> False
               | first # others \<Rightarrow>
                   \<not> (printable (show_time first)
                      \<and> printable (show_time (last (extractedRecords cmsData)))))
      else \<not> checkTemporarilyClosed cmsData
           \<and> (cmsData = JNull
               \<or> (case iter (or_else (own_prop cmsData ''ComponentPresentations'') (JArr [])) of
                     Inl e \<Rightarrow> True
                   | Inr cps \<Rightarrow> list_ex unlistable cps)))"

subsection \<open>Closure Detector\<close>








subsection \<open>Snapshot Differ\<close>

text \<open>What the specification says of an event: the affected date, the severity, the
  previous value and the new value.\<close>

type_synonym event_view = "string \<times> severity \<times> snapshot option \<times> snapshot option"

definition view :: "change \<Rightarrow> event_view" where
  "view ev = (change_date ev, severity ev, old_value ev, new_value ev)"

definition both :: "string schedule \<Rightarrow> snapshot" where
  "both r = \<lparr>v_show_time = Some (show_time r), v_status = Some (status r)\<rparr>"

definition timeOnly :: "string schedule \<Rightarrow> snapshot" where
  "timeOnly r = \<lparr>v_show_time = Some (show_time r), v_status = None\<rparr>"

definition statusOnly :: "string schedule \<Rightarrow> snapshot" where
  "statusOnly r = \<lparr>v_show_time = None, v_status = Some (status r)\<rparr>"

text \<open>The events of one new record against the prior records, in the words of section 4.5.\<close>

definition eventsOfNew :: "string schedule list \<Rightarrow> string schedule \<Rightarrow> event_view list" where
  "eventsOfNew priorRecords n =
     (case find (\<lambda>p. schedule_date p = schedule_date n) priorRecords of
        None \<Rightarrow> [(schedule_date n, LOW, None, Some (both n))]
      | Some p \<Rightarrow>
          (if show_time p \<noteq> show_time n
           then [(schedule_date n, MEDIUM, Some (timeOnly p), Some (timeOnly n))] else [])
          @ (if status p \<noteq> status n
             then [(schedule_date n, MEDIUM, Some (statusOnly p), Some (statusOnly n))] else []))"

definition eventsOfRemoved :: "string schedule list \<Rightarrow> string schedule list \<Rightarrow> event_view list" where
  "eventsOfRemoved newRecords priorRecords =
     map (\<lambda>p. (schedule_date p, HIGH, Some (both p), None))
       (filter (\<lambda>p. schedule_date p \<notin> set (map schedule_date newRecords)) priorRecords)"

definition specDiff :: "string schedule list \<Rightarrow> string schedule list \<Rightarrow> event_view list" where
  "specDiff newRecords priorRecords =
     concat (map (eventsOfNew priorRecords) newRecords)
     @ eventsOfRemoved newRecords priorRecords"

text \<open>The kind of an event is read off its severity: ADD is LOW, CHANGE is MEDIUM and
  REMOVE is HIGH.\<close>

datatype kind = ADD | CHANGE | REMOVE

definition kindOf :: "change \<Rightarrow> kind" where
  "kindOf ev = (case severity ev of LOW \<Rightarrow> ADD | MEDIUM \<Rightarrow> CHANGE | HIGH \<Rightarrow> REMOVE)"

text \<open>What one pass of the loop of lines 368 to 412 appends to \<^verbatim>\<open>changes\<close>.\<close>

definition changesOfNew ::
  "show_config \<Rightarrow> (string \<rightharpoonup> string schedule) \<Rightarrow> string schedule \<Rightarrow> change list" where
  "changesOfNew showConfig existingMap newRec =
     (case existingMap (schedule_date newRec) of
        None \<Rightarrow> [added showConfig newRec]
      | Some existing \<Rightarrow>
          (if show_time existing \<noteq> show_time newRec
           then [timeChanged showConfig existing newRec] else [])
          @ (if status existing \<noteq> status newRec
             then [statusChanged showConfig existing newRec] else []))"

subsection \<open>Example documents\<close>

text \<open>A slot whose preferred alias holds an active style and whose other alias, earlier in
  key order, holds a disabled one.\<close>

definition aliasSlot :: json where
  "aliasSlot =
     JObj [(''LinkedComponentValues'',
              JArr [JObj [(''style'', JObj [(''Values'', JArr [JStr ''Disabled Style''])])]]),
           (''EmbeddedValues'',
              JArr [JObj [(''eyebrow'', JObj [(''Values'', JArr [JStr ''8:30 PM''])]),
                          (''style'', JObj [(''Values'', JArr [JStr ''Active Style''])])]])]"

text \<open>A slot in the documented shape, with a disabled style.\<close>

definition tentativeSlot :: json where
  "tentativeSlot =
     JObj [(''EmbeddedValues'',
              JArr [JObj [(''eyebrow'', JObj [(''Values'', JArr [JStr ''8:30 PM''])]),
                          (''style'', JObj [(''Values'', JArr [JStr ''Disabled Style''])])]])]"

text \<open>A calendar node with an entry without dates and an entry with three dates that are
  not in date order.\<close>

definition fanoutNode :: json where
  "fanoutNode =
     JObj [(''EmbeddedValues'',
        JArr [JObj [(''eventDates'', JObj [(''DateTimeValues'', JArr [])]),
                    (''blockData'', tentativeSlot)],
              JObj [(''eventDates'', JObj [(''DateTimeValues'',
                       JArr [JStr ''2026-01-07T00:00:00'', JStr ''2026-01-05T00:00:00'',
                             JStr ''2026-01-06T00:00:00''])]),
                    (''blockData'', tentativeSlot)]])]"

text \<open>A calendar node that lists one date twice.\<close>

definition twiceNode :: json where
  "twiceNode =
     JObj [(''EmbeddedValues'',
        JArr [JObj [(''eventDates'', JObj [(''DateTimeValues'',
                 JArr [JStr ''2026-01-05T00:00:00'', JStr ''2026-01-05T12:00:00''])])]])]"

text \<open>A document with both a closure marker and a calendar.\<close>

definition closedDocument :: json where
  "closedDocument =
     JObj [(''ComponentPresentations'',
        JArr [JObj [(''Component'', JObj [(''Fields'', JObj [
                (''featureList'', JObj [(''LinkedComponentValues'',
                    JArr [JObj [(''Fields'', JObj [(''description'',
                       JObj [(''Values'', JArr [JStr ''Temporarily Closed''])])])]])]),
                (''calendarConfig'', JObj [(''EmbeddedValues'',
                    JArr [JObj [(''eventDates'', JObj [(''DateTimeValues'',
                       JArr [JStr ''2026-01-05T00:00:00''])])]])])])])]])]"





text \<open>A document without calendar and without closure marker whose only component
  presentation is null.\<close>

definition nullPresentationDocument :: json where
  "nullPresentationDocument = JObj [(''ComponentPresentations'', JArr [JNull])]"

text \<open>An entry without dates whose block has a null first entry.\<close>

definition skippedEntry :: json where
  "skippedEntry =
     JObj [(''eventDates'', JObj [(''DateTimeValues'', JArr [])]),
           (''blockData'', JObj [(''EmbeddedValues'', JArr [JNull])])]"

definition cineSational :: show_config where
  "cineSational =
     \<lparr>show_id = Some ''universal-studios-cinesational'',
      show_name = Some ''CineSational: A Symphonic Spectacular'',
      park_name = Some ''Universal Studios Florida'',
      show_type = Some ''NIGHTTIME_SHOW'',
      cms_url = None\<rparr>"

definition night :: "string \<Rightarrow> string \<Rightarrow> string schedule" where
  "night d t = \<lparr>schedule_date = d, show_time = t, status = ''SCHEDULED'', is_available = True\<rparr>"

section \<open>Auxiliary facts\<close>

lemmas unfold_decoder =
  extractBlockInfo_def fastPath_def entryList_def js_or_def readBlock_def bind_r_def
  styleObjOf_def firstValue_def toLowerCase_def lower_char_def styleFallback_def
  eyebrowFallback_def tentativeOf_def firstEntryStyle_def parseCalendarConfig_def
  dateTimeValuesOf_def debugLog_def

lemma bind_r_Inr: "(bind_r m f = Inr y) = (\<exists>x. m = Inr x \<and> f x = Inr y)"
  by (cases m) (simp_all add: bind_r_def)



subsection \<open>The locator against the list of occurrences\<close>

lemma find_first_aux:
  "(map_of (occurrences v d) k = None \<longrightarrow> findValueByKey v k d = JNull)
     \<and> (\<forall>w. map_of (occurrences v d) k = Some w \<longrightarrow> w \<noteq> JNull \<longrightarrow> findValueByKey v k d = w)"
  "(map_of (occItems items d) k = None \<longrightarrow> findInItems items k d = JNull)
     \<and> (\<forall>w. map_of (occItems items d) k = Some w \<longrightarrow> w \<noteq> JNull \<longrightarrow> findInItems items k d = w)"
  "(map_of (occProps ps d) k = None \<longrightarrow> findInProps ps k d = JNull)
     \<and> (\<forall>w. map_of (occProps ps d) k = Some w \<longrightarrow> w \<noteq> JNull \<longrightarrow> findInProps ps k d = w)"
proof (induction v k d and items k d and ps k d rule: findValueByKey_findInItems_findInProps.induct)
  case (5 item rest targetKey depth)
  then show ?case
    by (cases "map_of (occurrences item (depth + 1)) targetKey")
       (auto simp: map_add_def Let_def split: option.splits)
next
  case (7 key v rest targetKey depth)
  then show ?case
    by (cases "map_of (occurrences v (depth + 1)) targetKey")
       (auto simp: map_add_def Let_def split: option.splits)
qed simp_all

lemma find_sound_aux:
  "findValueByKey v k d \<noteq> JNull \<longrightarrow> (k, findValueByKey v k d) \<in> set (occurrences v d)"
  "findInItems items k d \<noteq> JNull \<longrightarrow> (k, findInItems items k d) \<in> set (occItems items d)"
  "findInProps ps k d \<noteq> JNull \<longrightarrow> (k, findInProps ps k d) \<in> set (occProps ps d)"
  by (induction v k d and items k d and ps k d rule: findValueByKey_findInItems_findInProps.induct)
     (auto simp: Let_def)

subsection \<open>The calendar loop as a concatenation\<close>

lemma splitT0_Inr: "splitT0 dt = Inr s \<Longrightarrow> s = dateText dt"
  by (cases dt) auto

lemma recordsFor_Inr:
  "recordsFor info dts = Inr rs \<Longrightarrow>
   rs = map (\<lambda>dt. \<lparr>schedule_date = dateText dt, show_time = showTime info,
                    status = (if isTentative info then ''TENTATIVE'' else ''SCHEDULED''),
                    is_available = \<not> isTentative info\<rparr>) dts"
  by (induction dts arbitrary: rs) (auto simp: bind_r_Inr dest: splitT0_Inr)

lemma length_is_zero_iter:
  "length_is_zero v \<Longrightarrow> (case iter v of Inl e \<Rightarrow> [] | Inr dts \<Rightarrow> dts) = []"
  by (cases v) auto

lemma expandEntries_Inr:
  "expandEntries debugged entries = Inr rs \<Longrightarrow> rs = concat (map expandEntry entries)"
proof (induction entries arbitrary: rs debugged)
  case Nil
  then show ?case by simp
next
  case (Cons entry rest)
  from Cons.prems obtain v where v: "dateTimeValuesOf entry = Inr v"
    by (auto simp: bind_r_Inr)
  show ?case
  proof (cases "length_is_zero v")
    case True
    with Cons.prems v have "expandEntries debugged rest = Inr rs"
      by (simp add: bind_r_def)
    from Cons.IH [OF this] True v show ?thesis
      by (simp add: expandEntry_def entryDates_def length_is_zero_iter)
  next
    case False
    with Cons.prems v obtain info dts rs1 later where
      info: "extractBlockInfo (own_prop entry ''blockData'') = Inr info"
      and dts: "iter v = Inr dts"
      and rs1: "recordsFor info dts = Inr rs1"
      and later: "expandEntries True rest = Inr later"
      and rs: "rs = rs1 @ later"
      by (auto simp: bind_r_Inr)
    from recordsFor_Inr [OF rs1] info dts v have "rs1 = expandEntry entry"
      by (simp add: expandEntry_def entryDates_def decodedBlock_def)
    with Cons.IH [OF later] rs show ?thesis by simp
  qed
qed

lemma parse_expand:
  "parseCalendarConfig node = Inr rs \<Longrightarrow> rs = concat (map expandEntry (entriesOf node))"
  by (auto simp: parseCalendarConfig_def bind_r_Inr entriesOf_def
      split: json.splits dest: expandEntries_Inr)

lemma expandEntry_dates: "map schedule_date (expandEntry entry) = map dateText (entryDates entry)"
  by (simp add: expandEntry_def comp_def)

lemma expandEntry_available:
  "r \<in> set (expandEntry entry) \<Longrightarrow> is_available r = (status r = ''SCHEDULED'')"
  by (auto simp: expandEntry_def)

lemma parse_fanoutNode:
  "parseCalendarConfig fanoutNode =
     Inr [\<lparr>schedule_date = ''2026-01-07'', show_time = JStr ''8:30 PM'',
            status = ''TENTATIVE'', is_available = False\<rparr>,
          \<lparr>schedule_date = ''2026-01-05'', show_time = JStr ''8:30 PM'',
            status = ''TENTATIVE'', is_available = False\<rparr>,
          \<lparr>schedule_date = ''2026-01-06'', show_time = JStr ''8:30 PM'',
            status = ''TENTATIVE'', is_available = False\<rparr>]"
  by (simp add: fanoutNode_def tentativeSlot_def unfold_decoder)

subsection \<open>The closure scan as an existence statement\<close>




lemma closedScan_closedDocument: "closedScan closedDocument = Inr True"
  by (simp add: closedDocument_def closedScan_def featuresOf_def unfold_decoder)

subsection \<open>The fast path of the block decoder\<close>

lemma fastPath_style:
  assumes "firstEntryStyle slot = Some (JStr s)"
  shows "\<exists>st. fastPath slot = Inr (st, str_includes (toLowerCase s) ''disabled'')"
proof -
  from assms obtain block others st where
    el: "entryList slot = JArr (block # others)"
    and so: "styleObjOf block = Some st"
    and tr: "truthy st"
    and fv: "firstValue st (JStr []) = JStr s"
    by (auto simp: firstEntryStyle_def split: json.splits list.splits option.splits if_splits)
  from so have "block \<noteq> JNull"
    by (auto simp: styleObjOf_def js_or_def)
  then obtain direct where "get (Some block) ''eyebrow'' = Inr direct"
    by (cases block) auto
  with el so tr fv show ?thesis
    by (simp add: fastPath_def readBlock_def bind_r_def Let_def)
qed

subsection \<open>The loops of the differ\<close>

lemma buildExistingMap_find:
  "distinct (map schedule_date es) \<Longrightarrow>
   buildExistingMap es m k =
     (case find (\<lambda>p. schedule_date p = k) es of None \<Rightarrow> m k | Some p \<Rightarrow> Some p)"
proof (induction es arbitrary: m)
  case Nil
  then show ?case by simp
next
  case (Cons e es)
  show ?case
  proof (cases "schedule_date e = k")
    case True
    with Cons.prems have "find (\<lambda>p. schedule_date p = k) es = None"
      by (auto simp: find_None_iff image_iff)
    with True Cons show ?thesis by simp
  next
    case False
    with Cons show ?thesis by (simp split: option.splits)
  qed
qed

lemma compareNew_changes:
  "compareNew cfg m ns changes = changes @ concat (map (changesOfNew cfg m) ns)"
  by (induction ns arbitrary: changes) (auto simp: changesOfNew_def Let_def split: option.splits)

lemma findRemoved_append:
  "findRemoved cfg S es changes =
     changes @ map (removed cfg) (filter (\<lambda>p. schedule_date p \<notin> S) es)"
  by (induction es arbitrary: changes) auto

lemma detectChanges_split:
  "detectChanges cfg new old =
     concat (map (changesOfNew cfg (buildExistingMap old Map.empty)) new)
     @ map (removed cfg) (filter (\<lambda>p. schedule_date p \<notin> set (map schedule_date new)) old)"
  by (simp add: detectChanges_def Let_def findRemoved_append compareNew_changes)

lemma view_changesOfNew:
  "map view (changesOfNew cfg m n) =
     (case m (schedule_date n) of
        None \<Rightarrow> [(schedule_date n, LOW, None, Some (both n))]
      | Some p \<Rightarrow>
          (if show_time p \<noteq> show_time n
           then [(schedule_date n, MEDIUM, Some (timeOnly p), Some (timeOnly n))] else [])
          @ (if status p \<noteq> status n
             then [(schedule_date n, MEDIUM, Some (statusOnly p), Some (statusOnly n))] else []))"
  by (simp add: changesOfNew_def view_def added_def timeChanged_def statusChanged_def both_def
      timeOnly_def statusOnly_def split: option.splits)

lemma view_removed: "view (removed cfg p) = (schedule_date p, HIGH, Some (both p), None)"
  by (simp add: view_def removed_def both_def)

lemma changesOfNew_kind:
  "ev \<in> set (changesOfNew cfg m n) \<Longrightarrow> kindOf ev \<noteq> REMOVE \<and> change_date ev = schedule_date n"
  by (auto simp: changesOfNew_def added_def timeChanged_def statusChanged_def kindOf_def
      split: option.splits if_splits)

subsection \<open>When the extraction throws\<close>

lemma not_Inr_iff: "(\<forall>y. (x :: 'a result) \<noteq> Inr y) = (x = Inl TypeError)"
  by (cases x) (auto intro: error.exhaust)

lemma result_cases: "(x :: 'a result) = Inl TypeError \<or> (\<exists>y. x = Inr y)"
  using not_Inr_iff [of x] by blast

lemma bind_r_Inl_iff:
  "(bind_r m f = Inl TypeError) = (m = Inl TypeError \<or> (\<exists>x. m = Inr x \<and> f x = Inl TypeError))"
  by (cases m) (auto simp: bind_r_def intro: error.exhaust)

lemma dateTimeValuesOf_eq:
  "dateTimeValuesOf entry = (if entry = JNull then Inl TypeError else Inr (datesValue entry))"
  by (cases entry) (simp_all add: dateTimeValuesOf_def bind_r_def datesValue_def)

lemma or_else_not_empty_string: "or_else x (JArr []) \<noteq> JStr []"
  by (cases x) auto

lemma length_is_zero_datesValue:
  "entry \<noteq> JNull \<Longrightarrow> length_is_zero (datesValue entry) = withoutDates entry"
  using or_else_not_empty_string [of "oget (own_prop entry ''eventDates'') ''DateTimeValues''"]
  by (cases "datesValue entry") (auto simp: withoutDates_def datesValue_def)

lemma recordsFor_Inl:
  "(recordsFor info dts = Inl TypeError) = list_ex (\<lambda>dt. \<not> isString dt) dts"
proof (induction dts)
  case Nil
  then show ?case by simp
next
  case (Cons dt dts)
  then show ?case by (cases dt) (auto simp: bind_r_Inl_iff)
qed

lemma recordsFor_returns:
  "(\<exists>rs. recordsFor info dts = Inr rs) = (\<not> list_ex (\<lambda>dt. \<not> isString dt) dts)"
  using recordsFor_Inl [of info dts] result_cases [of "recordsFor info dts"] by auto

lemma firstDatedRaises_Cons:
  "firstDatedRaises (entry # rest) =
     (if withoutDates entry then firstDatedRaises rest else debugLog entry = Inl TypeError)"
  by (simp add: firstDatedRaises_def)

lemma error_is: "(e :: error) = TypeError"
  by (cases e) simp

lemma bind_r_simps: "bind_r (Inl e) f = Inl e" "bind_r (Inr x) f = f x"
  by (simp_all add: bind_r_def)

lemma dated_step:
  assumes "entry \<noteq> JNull" and "\<not> withoutDates entry"
  shows "(expandEntries debugged (entry # rest) = Inl TypeError) =
           ((\<not> debugged \<and> debugLog entry = Inl TypeError)
            \<or> extractBlockInfo (own_prop entry ''blockData'') = Inl TypeError
            \<or> (case iter (datesValue entry) of
                  Inl e \<Rightarrow> True
                | Inr dts \<Rightarrow> list_ex (\<lambda>dt. \<not> isString dt) dts)
            \<or> expandEntries True rest = Inl TypeError)"
proof -
  have z: "\<not> length_is_zero (datesValue entry)"
    using assms by (simp add: length_is_zero_datesValue)
  have e: "expandEntries debugged (entry # rest) =
      bind_r (if debugged then Inr () else debugLog entry) (\<lambda>u.
        bind_r (extractBlockInfo (own_prop entry ''blockData'')) (\<lambda>info.
        bind_r (iter (datesValue entry)) (\<lambda>dts.
        bind_r (recordsFor info dts) (\<lambda>rs.
        bind_r (expandEntries True rest) (\<lambda>later. Inr (rs @ later))))))"
    using assms(1) z by (simp add: dateTimeValuesOf_eq bind_r_simps)
  show ?thesis
    unfolding e
    by (cases "iter (datesValue entry)"; cases "debugLog entry";
        cases "extractBlockInfo (own_prop entry ''blockData'')")
       (auto simp: bind_r_Inl_iff bind_r_simps recordsFor_Inl recordsFor_returns not_Inr_iff
          error_is [of "_ :: error"] split: if_splits)
qed

lemma expandEntries_Inl:
  "(expandEntries debugged entries = Inl TypeError) =
     (list_ex entryRaises entries \<or> (\<not> debugged \<and> firstDatedRaises entries))"
proof (induction entries arbitrary: debugged)
  case Nil
  then show ?case by (simp add: firstDatedRaises_def)
next
  case (Cons entry rest)
  show ?case
  proof (cases "entry = JNull")
    case True
    then show ?thesis by (simp add: dateTimeValuesOf_eq bind_r_def entryRaises_def)
  next
    case False
    note nn = this
    show ?thesis
    proof (cases "withoutDates entry")
      case True
      with nn Cons show ?thesis
        by (simp add: dateTimeValuesOf_eq bind_r_def length_is_zero_datesValue entryRaises_def
            firstDatedRaises_Cons)
    next
      case False
      from dated_step [OF nn False, of debugged rest] Cons [of True] nn False show ?thesis
        by (auto simp: entryRaises_def firstDatedRaises_Cons)
    qed
  qed
qed

lemma parse_Inl: "(parseCalendarConfig node = Inl TypeError) = raisesOn node"
proof (cases "node = JNull")
  case True
  then show ?thesis by (simp add: parseCalendarConfig_def bind_r_def raisesOn_def)
next
  case False
  then obtain u where u: "get (Some node) ''EmbeddedValues'' = Inr u"
    by (cases node) auto
  show ?thesis
  proof (cases "entryList node")
    case (JArr entries)
    with u False show ?thesis
      by (simp add: parseCalendarConfig_def bind_r_def raisesOn_def entriesOf_def expandEntries_Inl)
  qed (use u False in \<open>simp_all add: parseCalendarConfig_def bind_r_def raisesOn_def entriesOf_def
        firstDatedRaises_def\<close>)
qed

subsection \<open>The closure scan in document order\<close>





subsection \<open>The diagnostics of step 3 and the loops of the locator\<close>

lemma listFieldKeys_Inl: "(listFieldKeys cps = Inl TypeError) = list_ex unlistable cps"
proof (induction cps)
  case Nil
  then show ?case by simp
next
  case (Cons cp cps)
  then show ?case
    by (cases cp) (auto simp: unlistable_def bind_r_simps)
qed

lemma diagnose_Inl:
  "(diagnose d = Inl TypeError) =
     (d = JNull
      \<or> (case iter (or_else (own_prop d ''ComponentPresentations'') (JArr [])) of
            Inl e \<Rightarrow> True
          | Inr cps \<Rightarrow> list_ex unlistable cps))"
proof (cases "d = JNull")
  case True
  then show ?thesis by (simp add: diagnose_def bind_r_simps)
next
  case False
  then have g: "get (Some d) ''ComponentPresentations'' = Inr (own_prop d ''ComponentPresentations'')"
    by (cases d) simp_all
  with False show ?thesis
    by (cases "iter (or_else (own_prop d ''ComponentPresentations'') (JArr []))")
       (simp_all add: diagnose_def bind_r_simps listFieldKeys_Inl error_is [of "_ :: error"])
qed

lemma findInProps_null:
  "k \<notin> fst ` set pre \<Longrightarrow> \<forall>(k', w)\<in>set pre. findValueByKey w k (d + 1) = JNull \<Longrightarrow>
   findInProps (pre @ (k, JNull) # ps) k d = JNull"
  by (induction pre) (auto simp: Let_def)

lemma findInItems_pass:
  "\<forall>x\<in>set pre. findValueByKey x k (d + 1) = JNull \<Longrightarrow>
   findInItems (pre @ rest) k d = findInItems rest k d"
  by (induction pre) (auto simp: Let_def)


section \<open>The claims\<close>

subsection \<open>C1: the events of the differ\<close>

text \<open>
  Claim C1. When the prior records hold at most one record per date, the events that
  \<^verbatim>\<open>detectChanges\<close> emits are, as to date, severity, previous value and new value, exactly
  those of section 4.5: for each new record an ADD (LOW, no previous value, new value with
  time and status) when no prior record has its date, else a CHANGE (MEDIUM) on the time
  alone when the times differ and a second CHANGE (MEDIUM) on the status alone when the
  statuses differ; then a REMOVE (HIGH, previous value with time and status, no new value)
  for each prior record whose date no new record has. The new records need no hypothesis.
\<close>

theorem diff_exact:
  assumes "distinct (map schedule_date priorRecords)"
  shows "map view (detectChanges entity newRecords priorRecords) = specDiff newRecords priorRecords"
proof -
  have m: "buildExistingMap priorRecords Map.empty k
             = find (\<lambda>p. schedule_date p = k) priorRecords" for k
    using buildExistingMap_find [OF assms, of Map.empty k] by (simp split: option.splits)
  show ?thesis
    by (simp add: detectChanges_split map_concat comp_def view_changesOfNew view_removed m
        specDiff_def eventsOfNew_def [abs_def] eventsOfRemoved_def)
qed

text \<open>The scenario of section 8: the time moves from 8:00 PM to 8:30 PM and the status
  stays, which gives one MEDIUM event on the time and none on the status.\<close>

theorem diff_exact_witness:
  "distinct (map schedule_date [night ''2026-01-05'' ''8:00 PM''])
   \<and> map view (detectChanges cineSational [night ''2026-01-05'' ''8:30 PM'']
                  [night ''2026-01-05'' ''8:00 PM''])
     = [(''2026-01-05'', MEDIUM, Some \<lparr>v_show_time = Some ''8:00 PM'', v_status = None\<rparr>,
         Some \<lparr>v_show_time = Some ''8:30 PM'', v_status = None\<rparr>)]"
proof -
  have d: "distinct (map schedule_date [night ''2026-01-05'' ''8:00 PM''])"
    by simp
  from diff_exact [OF d, of cineSational "[night ''2026-01-05'' ''8:30 PM'']"] d
  show ?thesis
    by (simp add: specDiff_def eventsOfNew_def eventsOfRemoved_def timeOnly_def night_def)
qed

subsection \<open>C2: the invariant of the extracted records\<close>

text \<open>
  Claim C2, as amended. Every record that \<^verbatim>\<open>parseCalendarConfig\<close> returns is available
  exactly when its status is SCHEDULED, and the list has at most one record per date
  exactly when the dates that the entries of the node list, cut at the letter T, are
  pairwise different: the extraction removes no duplicate.
\<close>

theorem records_invariant:
  assumes "parseCalendarConfig node = Inr rs"
  shows "(\<forall>r\<in>set rs. is_available r = (status r = ''SCHEDULED''))
         \<and> (distinct (map schedule_date rs) \<longleftrightarrow> distinct (listedDates node))"
proof -
  have rs: "rs = concat (map expandEntry (entriesOf node))"
    using assms by (rule parse_expand)
  have "map schedule_date rs = listedDates node"
    unfolding rs listedDates_def by (simp add: map_concat comp_def expandEntry_dates)
  moreover have "\<forall>r\<in>set rs. is_available r = (status r = ''SCHEDULED'')"
    unfolding rs by (auto dest: expandEntry_available)
  ultimately show ?thesis by simp
qed

theorem records_invariant_witness:
  "parseCalendarConfig fanoutNode =
     Inr [\<lparr>schedule_date = ''2026-01-07'', show_time = JStr ''8:30 PM'',
            status = ''TENTATIVE'', is_available = False\<rparr>,
          \<lparr>schedule_date = ''2026-01-05'', show_time = JStr ''8:30 PM'',
            status = ''TENTATIVE'', is_available = False\<rparr>,
          \<lparr>schedule_date = ''2026-01-06'', show_time = JStr ''8:30 PM'',
            status = ''TENTATIVE'', is_available = False\<rparr>]
   \<and> distinct (listedDates fanoutNode)"
proof -
  from records_invariant [OF parse_fanoutNode] have "distinct (listedDates fanoutNode)"
    by simp
  with parse_fanoutNode show ?thesis by simp
qed

text \<open>The claim as stated fails on a node that lists one date twice: both date-time
  strings give a record of 2026-01-05.\<close>

theorem records_duplicate_date:
  "parseCalendarConfig twiceNode =
     Inr [\<lparr>schedule_date = ''2026-01-05'', show_time = JStr ''Unknown'',
            status = ''SCHEDULED'', is_available = True\<rparr>,
          \<lparr>schedule_date = ''2026-01-05'', show_time = JStr ''Unknown'',
            status = ''SCHEDULED'', is_available = True\<rparr>]
   \<and> \<not> distinct (map schedule_date
          [\<lparr>schedule_date = ''2026-01-05'', show_time = JStr ''Unknown'',
             status = ''SCHEDULED'', is_available = True\<rparr>,
           \<lparr>schedule_date = ''2026-01-05'', show_time = JStr ''Unknown'',
             status = ''SCHEDULED'', is_available = True\<rparr>])"
  by (simp add: twiceNode_def unfold_decoder)

subsection \<open>C3: when the style fallback runs\<close>

text \<open>
  Claim C3, as amended. For a slot that is not empty, the fallback search for a style key
  decides the tentative flag exactly when the fast path left the flag false, be it that
  the first entry has no style field or that its style string does not contain
  ``disabled''; when the fast path set the flag, the slot is tentative and the search is
  not consulted. So a first entry whose style string lacks ``disabled'' is reported as the
  fallback search reports it.
\<close>

theorem style_fallback_gate:
  assumes "truthy slot"
  shows "(\<forall>st t. fastPath slot = Inr (st, t) \<longrightarrow>
            tentativeOf (extractBlockInfo (Some slot))
              = (if t then Inr True else styleFallback slot))
         \<and> (\<forall>s. firstEntryStyle slot = Some (JStr s) \<longrightarrow>
              tentativeOf (extractBlockInfo (Some slot))
                = (if str_includes (toLowerCase s) ''disabled'' then Inr True
                   else styleFallback slot))"
proof -
  have a: "tentativeOf (extractBlockInfo (Some slot))
             = (if t then Inr True else styleFallback slot)"
    if "fastPath slot = Inr (st, t)" for st t
    using that assms
    by (cases "styleFallback slot")
       (auto simp: extractBlockInfo_def bind_r_def tentativeOf_def Let_def)
  have b: "tentativeOf (extractBlockInfo (Some slot))
             = (if str_includes (toLowerCase s) ''disabled'' then Inr True
                else styleFallback slot)"
    if "firstEntryStyle slot = Some (JStr s)" for s
    using fastPath_style [OF that] a by blast
  from a b show ?thesis by blast
qed

theorem style_fallback_gate_witness:
  "truthy tentativeSlot
   \<and> firstEntryStyle tentativeSlot = Some (JStr ''Disabled Style'')
   \<and> tentativeOf (extractBlockInfo (Some tentativeSlot)) = Inr True"
proof -
  have a: "truthy tentativeSlot"
    by (simp add: tentativeSlot_def)
  have b: "firstEntryStyle tentativeSlot = Some (JStr ''Disabled Style'')"
    by (simp add: tentativeSlot_def firstEntryStyle_def entryList_def js_or_def styleObjOf_def
        firstValue_def)
  have c: "str_includes (toLowerCase ''Disabled Style'') ''disabled''"
    by (simp add: toLowerCase_def lower_char_def)
  from style_fallback_gate [OF a] b c
  have "tentativeOf (extractBlockInfo (Some tentativeSlot)) = Inr True"
    by simp
  with a b show ?thesis by simp
qed

text \<open>The claim as stated fails on a slot whose first entry, under the preferred alias,
  carries the style ``Active Style'' while the other alias, which the search meets first,
  carries ``Disabled Style'': the slot is reported tentative.\<close>

theorem style_elsewhere_counterexample:
  "firstEntryStyle aliasSlot = Some (JStr ''Active Style'')
   \<and> \<not> str_includes (toLowerCase ''Active Style'') ''disabled''
   \<and> extractBlockInfo (Some aliasSlot)
       = Inr \<lparr>showTime = JStr ''8:30 PM'', isTentative = True\<rparr>"
  by (simp add: aliasSlot_def unfold_decoder)

subsection \<open>C4: exceptions of the decoder and of the extractor\<close>

text \<open>
  Claim C4 says that neither function throws on any input. Both throw a TypeError on an
  entry list whose first entry is null, and the decoder throws on a style value that is a
  number.
\<close>

theorem null_entry_raises:
  "extractBlockInfo (Some (JObj [(''EmbeddedValues'', JArr [JNull])])) = Inl TypeError
   \<and> parseCalendarConfig (JObj [(''EmbeddedValues'', JArr [JNull])]) = Inl TypeError
   \<and> extractBlockInfo (Some (JObj [(''EmbeddedValues'',
         JArr [JObj [(''style'', JObj [(''Values'', JArr [JNum 5])])]])])) = Inl TypeError"
  by (simp add: unfold_decoder)

subsection \<open>C5: fan-out and order of the extracted records\<close>

text \<open>
  Claim C5. On every calendar node \<^verbatim>\<open>parseCalendarConfig\<close> either throws, which it does
  exactly on the nodes singled out above (a null node or entry, or an entry with dates
  whose block, dates or console output throw), or returns the concatenation, in entry
  order, of what each entry expands to: one record per date-time string in the order
  listed, dated by the text before the letter T, all with the display time and the status
  decoded once from the block of the entry. Nothing is sorted. An entry whose list of
  date-time strings is empty or absent is skipped entirely: it gives no record and no
  exception, whatever its block holds.
\<close>

theorem calendar_fanout:
  "parseCalendarConfig node =
     (if raisesOn node then Inl TypeError
      else Inr (concat (map expandEntry (entriesOf node))))
   \<and> (withoutDates entry \<longrightarrow> expandEntry entry = [] \<and> \<not> entryRaises entry)"
proof (rule conjI)
  show "parseCalendarConfig node =
     (if raisesOn node then Inl TypeError
      else Inr (concat (map expandEntry (entriesOf node))))"
  proof (cases "raisesOn node")
    case True
    then show ?thesis by (simp add: parse_Inl)
  next
    case False
    then have "parseCalendarConfig node \<noteq> Inl TypeError"
      by (simp add: parse_Inl)
    with result_cases [of "parseCalendarConfig node"] obtain rs where
      rs: "parseCalendarConfig node = Inr rs"
      by blast
    from parse_expand [OF rs] rs False show ?thesis by simp
  qed
  show "withoutDates entry \<longrightarrow> expandEntry entry = [] \<and> \<not> entryRaises entry"
  proof
    assume w: "withoutDates entry"
    then have "entryDates entry = []"
      by (cases "datesValue entry")
         (auto simp: withoutDates_def entryDates_def dateTimeValuesOf_eq)
    with w show "expandEntry entry = [] \<and> \<not> entryRaises entry"
      by (auto simp: expandEntry_def entryRaises_def withoutDates_def)
  qed
qed

text \<open>An entry without dates contributes nothing, also when its block would throw; an
  entry that lists the 7th, the 5th and the 6th of January gives three tentative records
  in that order.\<close>

theorem calendar_fanout_witness:
  "withoutDates skippedEntry
   \<and> extractBlockInfo (own_prop skippedEntry ''blockData'') = Inl TypeError
   \<and> parseCalendarConfig (JObj [(''EmbeddedValues'', JArr [skippedEntry])]) = Inr []
   \<and> parseCalendarConfig fanoutNode =
       Inr [\<lparr>schedule_date = ''2026-01-07'', show_time = JStr ''8:30 PM'',
              status = ''TENTATIVE'', is_available = False\<rparr>,
            \<lparr>schedule_date = ''2026-01-05'', show_time = JStr ''8:30 PM'',
              status = ''TENTATIVE'', is_available = False\<rparr>,
            \<lparr>schedule_date = ''2026-01-06'', show_time = JStr ''8:30 PM'',
              status = ''TENTATIVE'', is_available = False\<rparr>]
   \<and> concat (map expandEntry (entriesOf fanoutNode)) =
       [\<lparr>schedule_date = ''2026-01-07'', show_time = JStr ''8:30 PM'',
          status = ''TENTATIVE'', is_available = False\<rparr>,
        \<lparr>schedule_date = ''2026-01-05'', show_time = JStr ''8:30 PM'',
          status = ''TENTATIVE'', is_available = False\<rparr>,
        \<lparr>schedule_date = ''2026-01-06'', show_time = JStr ''8:30 PM'',
          status = ''TENTATIVE'', is_available = False\<rparr>]"
proof -
  have a: "withoutDates skippedEntry"
    by (simp add: skippedEntry_def withoutDates_def datesValue_def)
  have b: "extractBlockInfo (own_prop skippedEntry ''blockData'') = Inl TypeError"
    by (simp add: skippedEntry_def unfold_decoder)
  have c: "entriesOf (JObj [(''EmbeddedValues'', JArr [skippedEntry])]) = [skippedEntry]"
    by (simp add: entriesOf_def entryList_def js_or_def)
  from a calendar_fanout [of _ skippedEntry] have d: "expandEntry skippedEntry = []"
    and e: "\<not> entryRaises skippedEntry"
    by blast+
  from a c e have f: "\<not> raisesOn (JObj [(''EmbeddedValues'', JArr [skippedEntry])])"
    by (simp add: raisesOn_def firstDatedRaises_def)
  from calendar_fanout [of "JObj [(''EmbeddedValues'', JArr [skippedEntry])]"] f c d
  have g: "parseCalendarConfig (JObj [(''EmbeddedValues'', JArr [skippedEntry])]) = Inr []"
    by simp
  from calendar_fanout [of fanoutNode] parse_fanoutNode
  have h: "concat (map expandEntry (entriesOf fanoutNode)) =
       [\<lparr>schedule_date = ''2026-01-07'', show_time = JStr ''8:30 PM'',
          status = ''TENTATIVE'', is_available = False\<rparr>,
        \<lparr>schedule_date = ''2026-01-05'', show_time = JStr ''8:30 PM'',
          status = ''TENTATIVE'', is_available = False\<rparr>,
        \<lparr>schedule_date = ''2026-01-06'', show_time = JStr ''8:30 PM'',
          status = ''TENTATIVE'', is_available = False\<rparr>]"
    by (auto split: if_splits)
  from a b g parse_fanoutNode h show ?thesis by blast
qed

subsection \<open>C6: the status of a show\<close>

text \<open>
  Claim C6. On every document on which \<^verbatim>\<open>processShow\<close> reaches step 4, the status is
  TEMPORARILY_CLOSED when the closure detector returned true, else ACTIVE when the
  extraction yielded at least one record, else UNKNOWN. Step 4 is not reached, and no
  status is computed, exactly on the documents singled out above: the calendar that was
  found makes the extraction throw or yields a first or last display time that cannot be
  printed, or no calendar is found, the show is not closed and the listing of the
  component presentations throws.
\<close>

theorem status_rule:
  "processShowStatus cmsData =
     (if statusNotReached cmsData then Inl TypeError
      else Inr (if checkTemporarilyClosed cmsData then TEMPORARILY_CLOSED
                else if extractedRecords cmsData \<noteq> [] then ACTIVE
                else UNKNOWN))"
proof (cases "truthy (findCalendarConfig cmsData 0)")
  case True
  show ?thesis
  proof (cases "parseCalendarConfig (findCalendarConfig cmsData 0)")
    case (Inl e)
    with True show ?thesis
      by (simp add: processShowStatus_def findAndParse_def statusNotReached_def bind_r_simps
          error_is [of e])
  next
    case (Inr rs)
    with True show ?thesis
      by (cases rs)
         (simp_all add: processShowStatus_def findAndParse_def statusNotReached_def bind_r_simps
            extractedRecords_def logParsed_def currentStatus_def)
  qed
next
  case False
  note nc = this
  show ?thesis
  proof (cases "checkTemporarilyClosed cmsData")
    case True
    with nc show ?thesis
      by (simp add: processShowStatus_def findAndParse_def statusNotReached_def bind_r_simps
          extractedRecords_def currentStatus_def)
  next
    case False
    with nc diagnose_Inl [of cmsData] show ?thesis
      by (cases "diagnose cmsData")
         (simp_all add: processShowStatus_def findAndParse_def statusNotReached_def bind_r_simps
            extractedRecords_def currentStatus_def error_is [of "_ :: error"])
  qed
qed

text \<open>A document with a closure marker and a calendar of one date is TEMPORARILY_CLOSED; a
  document without presentations is UNKNOWN; on a document whose only presentation is
  null, and on the document null, no status is computed.\<close>

theorem status_rule_witness:
  "checkTemporarilyClosed closedDocument
   \<and> extractedRecords closedDocument \<noteq> []
   \<and> processShowStatus closedDocument = Inr TEMPORARILY_CLOSED
   \<and> processShowStatus (JObj [(''ComponentPresentations'', JArr [])]) = Inr UNKNOWN
   \<and> statusNotReached nullPresentationDocument
   \<and> processShowStatus nullPresentationDocument = Inl TypeError
   \<and> processShowStatus JNull = Inl TypeError"
proof -
  have a: "checkTemporarilyClosed closedDocument"
    by (simp add: checkTemporarilyClosed_def closedScan_closedDocument)
  have b: "processShowStatus closedDocument = Inr TEMPORARILY_CLOSED"
    using a
    by (simp add: processShowStatus_def findAndParse_def closedDocument_def directHit_def
        skipped_keys_def logParsed_def currentStatus_def unfold_decoder)
  have c: "extractedRecords closedDocument \<noteq> []"
    by (simp add: extractedRecords_def closedDocument_def directHit_def skipped_keys_def
        unfold_decoder)
  have d: "\<not> statusNotReached (JObj [(''ComponentPresentations'', JArr [])])"
    by (simp add: statusNotReached_def directHit_def skipped_keys_def)
  have e: "\<not> checkTemporarilyClosed (JObj [(''ComponentPresentations'', JArr [])])"
    by (simp add: checkTemporarilyClosed_def closedScan_def bind_r_def)
  have f: "extractedRecords (JObj [(''ComponentPresentations'', JArr [])]) = []"
    by (simp add: extractedRecords_def directHit_def skipped_keys_def)
  from status_rule [of "JObj [(''ComponentPresentations'', JArr [])]"] d e f
  have g: "processShowStatus (JObj [(''ComponentPresentations'', JArr [])]) = Inr UNKNOWN"
    by simp
  have h: "statusNotReached nullPresentationDocument"
    by (simp add: statusNotReached_def nullPresentationDocument_def directHit_def
        skipped_keys_def checkTemporarilyClosed_def closedScan_def featuresOf_def bind_r_def
        unlistable_def)
  from status_rule [of nullPresentationDocument] h
  have i: "processShowStatus nullPresentationDocument = Inl TypeError"
    by simp
  have "statusNotReached JNull"
    by (simp add: statusNotReached_def checkTemporarilyClosed_def closedScan_def bind_r_def)
  with status_rule [of JNull] have j: "processShowStatus JNull = Inl TypeError"
    by simp
  from a b c g h i j show ?thesis by blast
qed

subsection \<open>C7: the closure detector\<close>




subsection \<open>C8: the order of the events\<close>

text \<open>
  Claim C8. The output of \<^verbatim>\<open>detectChanges\<close> is a first part followed by a second part.
  The first part is one group of events per new record, the groups in the order of the
  new records, each event of a group an ADD or a CHANGE dated as its record. The second
  part is one REMOVE per record of a sublist of the prior records, in the order of the
  prior records and dated as its record.
\<close>

theorem diff_order:
  "\<exists>groups kept removes.
      detectChanges entity newRecords priorRecords = concat groups @ removes
      \<and> list_all2 (\<lambda>n g. \<forall>ev\<in>set g. kindOf ev \<noteq> REMOVE \<and> change_date ev = schedule_date n)
           newRecords groups
      \<and> subseq kept priorRecords
      \<and> list_all2 (\<lambda>p ev. kindOf ev = REMOVE \<and> change_date ev = schedule_date p) kept removes"
proof (intro exI conjI)
  show "detectChanges entity newRecords priorRecords =
      concat (map (changesOfNew entity (buildExistingMap priorRecords Map.empty)) newRecords)
      @ map (removed entity)
          (filter (\<lambda>p. schedule_date p \<notin> set (map schedule_date newRecords)) priorRecords)"
    by (rule detectChanges_split)
  show "list_all2 (\<lambda>n g. \<forall>ev\<in>set g. kindOf ev \<noteq> REMOVE \<and> change_date ev = schedule_date n)
      newRecords (map (changesOfNew entity (buildExistingMap priorRecords Map.empty)) newRecords)"
    by (simp add: list_all2_map2 list_all2_same changesOfNew_kind)
  show "subseq (filter (\<lambda>p. schedule_date p \<notin> set (map schedule_date newRecords)) priorRecords)
      priorRecords"
    by simp
  show "list_all2 (\<lambda>p ev. kindOf ev = REMOVE \<and> change_date ev = schedule_date p)
      (filter (\<lambda>p. schedule_date p \<notin> set (map schedule_date newRecords)) priorRecords)
      (map (removed entity)
         (filter (\<lambda>p. schedule_date p \<notin> set (map schedule_date newRecords)) priorRecords))"
    by (simp add: list_all2_map2 list_all2_same removed_def kindOf_def)
qed

text \<open>A new date, a changed time and a date that is gone: the ADD and the CHANGE come in
  the order of the new records, before the REMOVE.\<close>

theorem diff_order_witness:
  "map (\<lambda>ev. (kindOf ev, change_date ev))
     (detectChanges cineSational
        [night ''2026-01-06'' ''8:30 PM'', night ''2026-01-05'' ''8:30 PM'']
        [night ''2026-01-04'' ''8:00 PM'', night ''2026-01-05'' ''8:00 PM''])
     = [(ADD, ''2026-01-06''), (CHANGE, ''2026-01-05''), (REMOVE, ''2026-01-04'')]
   \<and> (\<exists>groups kept removes.
        detectChanges cineSational
          [night ''2026-01-06'' ''8:30 PM'', night ''2026-01-05'' ''8:30 PM'']
          [night ''2026-01-04'' ''8:00 PM'', night ''2026-01-05'' ''8:00 PM'']
          = concat groups @ removes
        \<and> list_all2 (\<lambda>n g. \<forall>ev\<in>set g. kindOf ev \<noteq> REMOVE \<and> change_date ev = schedule_date n)
             [night ''2026-01-06'' ''8:30 PM'', night ''2026-01-05'' ''8:30 PM''] groups
        \<and> subseq kept [night ''2026-01-04'' ''8:00 PM'', night ''2026-01-05'' ''8:00 PM'']
        \<and> list_all2 (\<lambda>p ev. kindOf ev = REMOVE \<and> change_date ev = schedule_date p) kept removes)"
proof (rule conjI)
  show "map (\<lambda>ev. (kindOf ev, change_date ev))
     (detectChanges cineSational
        [night ''2026-01-06'' ''8:30 PM'', night ''2026-01-05'' ''8:30 PM'']
        [night ''2026-01-04'' ''8:00 PM'', night ''2026-01-05'' ''8:00 PM''])
     = [(ADD, ''2026-01-06''), (CHANGE, ''2026-01-05''), (REMOVE, ''2026-01-04'')]"
    by (simp add: detectChanges_def night_def kindOf_def added_def timeChanged_def removed_def)
qed (rule diff_order)

subsection \<open>C9: what the locator returns\<close>

text \<open>
  Claim C9, as amended. \<^verbatim>\<open>findValueByKey\<close> is a total function of its arguments, so it
  raises nothing and gives one result per input. When no key at depth at most 10 equals
  the target it returns null, the sentinel of a miss; when the first value under the
  target key, in depth-first order, is not null, it returns that value; and called beyond
  depth 10 it returns null.
\<close>

theorem locate_first_value:
  "(firstUnderKey v k = None \<longrightarrow> findValueByKey v k 0 = JNull)
   \<and> (\<forall>w. firstUnderKey v k = Some w \<longrightarrow> w \<noteq> JNull \<longrightarrow> findValueByKey v k 0 = w)
   \<and> (\<forall>d>10. findValueByKey v k d = JNull)"
proof -
  have "\<forall>d>10. findValueByKey v k d = JNull"
    by (cases v) simp_all
  with find_first_aux(1) [of v 0 k] show ?thesis
    by (simp add: firstUnderKey_def)
qed

theorem locate_first_value_witness:
  "firstUnderKey (JObj [(''EmbeddedValues'', JArr [JObj [(''eyebrow'', JStr ''8:30 PM'')]])])
     ''eyebrow'' = Some (JStr ''8:30 PM'')
   \<and> findValueByKey (JObj [(''EmbeddedValues'', JArr [JObj [(''eyebrow'', JStr ''8:30 PM'')]])])
       ''eyebrow'' 0 = JStr ''8:30 PM''
   \<and> firstUnderKey (JObj [(''EmbeddedValues'', JArr [])]) ''eyebrow'' = None
   \<and> findValueByKey (JObj [(''EmbeddedValues'', JArr [])]) ''eyebrow'' 0 = JNull
   \<and> findValueByKey (JObj [(''eyebrow'', JStr ''8:30 PM'')]) ''eyebrow'' 11 = JNull"
proof -
  have a: "firstUnderKey
      (JObj [(''EmbeddedValues'', JArr [JObj [(''eyebrow'', JStr ''8:30 PM'')]])])
      ''eyebrow'' = Some (JStr ''8:30 PM'')"
    by (simp add: firstUnderKey_def)
  have b: "firstUnderKey (JObj [(''EmbeddedValues'', JArr [])]) ''eyebrow'' = None"
    by (simp add: firstUnderKey_def)
  from a locate_first_value
    [of "JObj [(''EmbeddedValues'', JArr [JObj [(''eyebrow'', JStr ''8:30 PM'')]])]" "''eyebrow''"]
  have c: "findValueByKey
      (JObj [(''EmbeddedValues'', JArr [JObj [(''eyebrow'', JStr ''8:30 PM'')]])])
      ''eyebrow'' 0 = JStr ''8:30 PM''"
    by blast
  from b locate_first_value [of "JObj [(''EmbeddedValues'', JArr [])]" "''eyebrow''"]
  have d: "findValueByKey (JObj [(''EmbeddedValues'', JArr [])]) ''eyebrow'' 0 = JNull"
    by blast
  from locate_first_value [of "JObj [(''eyebrow'', JStr ''8:30 PM'')]" "''eyebrow''"]
  have e: "findValueByKey (JObj [(''eyebrow'', JStr ''8:30 PM'')]) ''eyebrow'' 11 = JNull"
    by simp
  from a b c d e show ?thesis by blast
qed

text \<open>The claim as stated fails where the first value under the key is null: the first
  value found under \<^verbatim>\<open>a\<close> is the null of the first element, and the number of the second
  element is returned.\<close>

theorem located_not_first:
  "firstUnderKey (JArr [JObj [(''a'', JNull)], JObj [(''a'', JNum 1)]]) ''a'' = Some JNull
   \<and> findValueByKey (JArr [JObj [(''a'', JNull)], JObj [(''a'', JNum 1)]]) ''a'' 0 = JNum 1"
  by (simp add: firstUnderKey_def)

subsection \<open>C10: null values under the target key\<close>

text \<open>
  Claim C10, as amended. A result that is not null is the value of an occurrence of the
  target key, and when every occurrence of the key holds null the result is null. A null
  under the target key ends the scan of the mapping that holds it with the answer null,
  whatever keys follow in that mapping, as soon as the keys before it have yielded
  nothing; the sequence or the mapping around it takes that answer for a miss and goes on
  with its next element, so that a later occurrence may be returned.
\<close>

theorem locate_null_occurrence:
  "(findValueByKey v k 0 \<noteq> JNull \<longrightarrow> (k, findValueByKey v k 0) \<in> set (occurrences v 0))
   \<and> ((\<forall>w. (k, w) \<in> set (occurrences v 0) \<longrightarrow> w = JNull) \<longrightarrow> findValueByKey v k 0 = JNull)
   \<and> findValueByKey (JObj ((k, JNull) # ps)) k d = JNull
   \<and> findValueByKey (JArr (JObj ((k, JNull) # ps) # rest)) k 0 = findValueByKey (JArr rest) k 0
   \<and> (k' \<noteq> k \<longrightarrow> findValueByKey (JObj ((k', JObj ((k, JNull) # ps)) # qs)) k 0
                   = findValueByKey (JObj qs) k 0)
   \<and> (k \<notin> fst ` set before \<and> (\<forall>(k', w)\<in>set before. findValueByKey w k (d + 1) = JNull) \<longrightarrow>
        findValueByKey (JObj (before @ (k, JNull) # ps)) k d = JNull)
   \<and> ((\<forall>x\<in>set items. findValueByKey x k 1 = JNull) \<longrightarrow>
        findValueByKey (JArr (items @ rest)) k 0 = findValueByKey (JArr rest) k 0)"
proof -
  have a: "k \<notin> fst ` set before \<and> (\<forall>(k', w)\<in>set before. findValueByKey w k (d + 1) = JNull) \<longrightarrow>
        findValueByKey (JObj (before @ (k, JNull) # ps)) k d = JNull"
    by (simp add: findInProps_null)
  have b: "(\<forall>x\<in>set items. findValueByKey x k 1 = JNull) \<longrightarrow>
        findValueByKey (JArr (items @ rest)) k 0 = findValueByKey (JArr rest) k 0"
    using findInItems_pass [of items k 0 rest] by simp
  from a b find_sound_aux(1) [of v k 0] show ?thesis by auto
qed

theorem locate_null_occurrence_witness:
  "findValueByKey (JArr [JObj [(''style'', JNull)], JObj [(''style'', JStr ''Disabled Style'')]])
     ''style'' 0 = JStr ''Disabled Style''
   \<and> findValueByKey (JArr [JObj [(''style'', JNull)]]) ''style'' 0 = JNull
   \<and> findValueByKey (JObj [(''x'', JNum 5), (''a'', JNull), (''b'', JObj [(''a'', JNum 1)])])
       ''a'' 0 = JNull"
proof -
  have a: "\<forall>w. (''style'', w) \<in> set (occurrences (JArr [JObj [(''style'', JNull)]]) 0)
             \<longrightarrow> w = JNull"
    by simp
  from a locate_null_occurrence [of "JArr [JObj [(''style'', JNull)]]" "''style''"]
  have b: "findValueByKey (JArr [JObj [(''style'', JNull)]]) ''style'' 0 = JNull"
    by blast
  from locate_null_occurrence
    [of _ "''style''" "[]" _ "[JObj [(''style'', JStr ''Disabled Style'')]]"]
  have "findValueByKey
      (JArr [JObj [(''style'', JNull)], JObj [(''style'', JStr ''Disabled Style'')]]) ''style'' 0
     = findValueByKey (JArr [JObj [(''style'', JStr ''Disabled Style'')]]) ''style'' 0"
    by blast
  then have c: "findValueByKey
      (JArr [JObj [(''style'', JNull)], JObj [(''style'', JStr ''Disabled Style'')]]) ''style'' 0
     = JStr ''Disabled Style''"
    by simp
  have p: "''a'' \<notin> fst ` set [(''x'', JNum 5)]
           \<and> (\<forall>(k', w)\<in>set [(''x'', JNum 5)]. findValueByKey w ''a'' (0 + 1) = JNull)"
    by simp
  from p locate_null_occurrence
    [of _ "''a''" "[(''b'', JObj [(''a'', JNum 1)])]" 0 _ _ _ "[(''x'', JNum 5)]"]
  have "findValueByKey (JObj ([(''x'', JNum 5)] @ (''a'', JNull) # [(''b'', JObj [(''a'', JNum 1)])]))
       ''a'' 0 = JNull"
    by blast
  then have e: "findValueByKey
      (JObj [(''x'', JNum 5), (''a'', JNull), (''b'', JObj [(''a'', JNum 1)])]) ''a'' 0 = JNull"
    by simp
  from b c e show ?thesis by blast
qed

text \<open>The claim as stated fails where the null sits in the mapping that is searched: the
  first value under \<^verbatim>\<open>a\<close> that is not null is the number under \<^verbatim>\<open>b\<close>, and the search
  has stopped at the null before reaching it.\<close>

theorem located_stops_at_null:
  "firstNonNullUnderKey (JObj [(''a'', JNull), (''b'', JObj [(''a'', JNum 1)])]) ''a''
     = Some (JNum 1)
   \<and> findValueByKey (JObj [(''a'', JNull), (''b'', JObj [(''a'', JNum 1)])]) ''a'' 0 = JNull"
  by (simp add: firstNonNullUnderKey_def)

end
